theory Spec2Isabelle
  imports Main "HOL-Library.Word"
begin

section \<open>SimpleCom.c: a hand-written COM server in C\<close>

text \<open>
  The source is one C file: a reference-counted calculator object, a static class
  factory, and the module's entry points. The embedding below follows the file from top
  to bottom. Every C function becomes a function from the memory it can see (a
  \<open>world\<close>) to its return value and the memory afterwards; \<open>None\<close> stands for
  undefined behaviour (a read or write through a pointer that does not address a live
  object of the right shape). Identifiers are passed by value and a \<open>ppv\<close> argument is
  the address of one of the caller's pointer variables. \<open>GetInfo\<close>, which only asks
  the platform for a string, and \<open>DllMain\<close> are left out. The code runs on one
  thread here, so an interlocked increment is an increment.
\<close>

subsection \<open>Platform types and constants\<close>

text \<open>
  The target is Windows: \<open>long\<close>, \<open>ULONG\<close>, \<open>int\<close> and \<open>HRESULT\<close> are all
  32 bits wide. Arithmetic is the machine's: it wraps around.
\<close>

type_synonym HRESULT = "32 word"
type_synonym ULONG = "32 word"
type_synonym LONG = "32 word"
type_synonym c_int = "32 word"

text \<open>
  The status codes come from the platform header \<open>winerror.h\<close>, not from the
  repository; their values are fixed by the platform.
\<close>

definition S_OK :: HRESULT where
  "S_OK = 0x00000000"

definition S_FALSE :: HRESULT where
  "S_FALSE = 0x00000001"

definition E_NOINTERFACE :: HRESULT where
  "E_NOINTERFACE = 0x80004002"

definition E_OUTOFMEMORY :: HRESULT where
  "E_OUTOFMEMORY = 0x8007000E"

definition CLASS_E_NOAGGREGATION :: HRESULT where
  "CLASS_E_NOAGGREGATION = 0x80040110"

definition CLASS_E_CLASSNOTAVAILABLE :: HRESULT where
  "CLASS_E_CLASSNOTAVAILABLE = 0x80040111"

text \<open>
  The platform's own test of a status: \<open>SUCCEEDED(hr)\<close> is \<open>hr >= 0\<close> on the
  signed reading, \<open>FAILED(hr)\<close> is \<open>hr < 0\<close>.
\<close>

definition SUCCEEDED :: "HRESULT \<Rightarrow> bool" where
  "SUCCEEDED hr \<longleftrightarrow> 0 \<le> sint hr"

definition FAILED :: "HRESULT \<Rightarrow> bool" where
  "FAILED hr \<longleftrightarrow> sint hr < 0"

record GUID =
  Data1 :: "32 word"
  Data2 :: "16 word"
  Data3 :: "16 word"
  Data4 :: "8 word list"

text \<open>\<open>IsEqualGUID\<close> compares the sixteen bytes of two identifiers.\<close>

definition IsEqualGUID :: "GUID \<Rightarrow> GUID \<Rightarrow> bool" where
  "IsEqualGUID rguid1 rguid2 \<longleftrightarrow>
     Data1 rguid1 = Data1 rguid2 \<and> Data2 rguid1 = Data2 rguid2 \<and>
     Data3 rguid1 = Data3 rguid2 \<and> Data4 rguid1 = Data4 rguid2"

text \<open>
  \<open>IID_IUnknown\<close> and \<open>IID_IClassFactory\<close> are the platform's
  (\<open>{00000000-0000-0000-C000-000000000046}\<close> and
  \<open>{00000001-0000-0000-C000-000000000046}\<close>); the other two are declared at the top
  of the source file.
\<close>

definition IID_IUnknown :: GUID where
  "IID_IUnknown =
     \<lparr>Data1 = 0x00000000, Data2 = 0x0000, Data3 = 0x0000,
      Data4 = [0xC0, 0x00, 0x00, 0x00, 0x00, 0x00, 0x00, 0x46]\<rparr>"

definition IID_IClassFactory :: GUID where
  "IID_IClassFactory =
     \<lparr>Data1 = 0x00000001, Data2 = 0x0000, Data3 = 0x0000,
      Data4 = [0xC0, 0x00, 0x00, 0x00, 0x00, 0x00, 0x00, 0x46]\<rparr>"

definition CLSID_SimpleCalculator :: GUID where
  "CLSID_SimpleCalculator =
     \<lparr>Data1 = 0x11111111, Data2 = 0x2222, Data3 = 0x3333,
      Data4 = [0x44, 0x44, 0x55, 0x55, 0x55, 0x55, 0x55, 0x55]\<rparr>"

definition IID_ICalculator :: GUID where
  "IID_ICalculator =
     \<lparr>Data1 = 0xE1234567, Data2 = 0xABCD, Data3 = 0x1234,
      Data4 = [0xEF, 0x12, 0x01, 0x23, 0x45, 0x67, 0x89, 0xAB]\<rparr>"

subsection \<open>Pointers, objects and memory\<close>

text \<open>
  A \<open>void*\<close> is null, the address of a heap block, the address of the one static
  factory object, or the address of something that belongs to the caller (an outer
  aggregate, for instance).
\<close>

datatype ptr = NULL | Heap nat | Static_SimpleClassFactory | Foreign nat

text \<open>The two static dispatch tables; a \<open>vtbl\<close> value is the address of one.\<close>

datatype vtbl = CalculatorVtbl | ClassFactoryVtbl

text \<open>
  Every object starts with its dispatch-table pointer (the layout the cast
  \<open>(IUnknown*)this\<close> relies on); the calculator adds its count.
\<close>

record IUnknown =
  lpVtbl :: vtbl

record SimpleCalculator = IUnknown +
  count :: LONG

type_synonym SimpleClassFactoryStruct = IUnknown

text \<open>
  The memory the module can see:
  \<^item> \<open>objs\<close>: the live heap blocks, each holding a calculator;
  \<^item> \<open>slots\<close>: the caller's \<open>void*\<close> variables, which the \<open>ppv\<close> arguments
    point to;
  \<^item> \<open>pool\<close>: the addresses the allocator may hand out, in its order of preference;
  \<^item> \<open>alloc_log\<close>: every call of \<open>malloc\<close> (with its result) and of \<open>free\<close>,
    in order. The log is not read by the program; it records what was allocated and
    reclaimed.
\<close>

datatype alloc_event = Malloc "nat option" | Free nat

record world =
  objs :: "nat \<Rightarrow> SimpleCalculator option"
  slots :: "nat \<Rightarrow> ptr"
  pool :: "nat list"
  alloc_log :: "alloc_event list"

text \<open>
  \<open>malloc\<close> returns the first address of the pool that is not live, or null when
  there is none: the block it returns is always a fresh one. \<open>free\<close> ends the life of
  a block.
\<close>

definition malloc :: "world \<Rightarrow> nat option \<times> world" where
  "malloc w =
     (let r = find (\<lambda>a. objs w a = None) (pool w)
      in (r, w\<lparr>alloc_log := alloc_log w @ [Malloc r]\<rparr>))"

definition free :: "nat \<Rightarrow> world \<Rightarrow> world" where
  "free a w = w\<lparr>objs := (objs w)(a := None), alloc_log := alloc_log w @ [Free a]\<rparr>"

subsection \<open>The calculator object\<close>

text \<open>
  \<open>AddRef\<close> and \<open>Release\<close> cast \<open>this\<close> to \<open>SimpleCalculator*\<close> and reach for
  its count: that is defined only when \<open>this\<close> addresses a live calculator block.
  \<open>InterlockedIncrement\<close> and \<open>InterlockedDecrement\<close> return the new value.
\<close>

definition AddRef :: "ptr \<Rightarrow> world \<Rightarrow> (ULONG \<times> world) option" where
  "AddRef this w =
     (case this of
        Heap a \<Rightarrow>
          (case objs w a of
             Some obj \<Rightarrow>
               (let c = count obj + 1
                in Some (c, w\<lparr>objs := (objs w)(a \<mapsto> obj\<lparr>count := c\<rparr>)\<rparr>))
           | None \<Rightarrow> None)
      | _ \<Rightarrow> None)"

definition Release :: "ptr \<Rightarrow> world \<Rightarrow> (ULONG \<times> world) option" where
  "Release this w =
     (case this of
        Heap a \<Rightarrow>
          (case objs w a of
             Some obj \<Rightarrow>
               (let c = count obj - 1;
                    w1 = w\<lparr>objs := (objs w)(a \<mapsto> obj\<lparr>count := c\<rparr>)\<rparr>
                in Some (c, if c = 0 then free a w1 else w1))
           | None \<Rightarrow> None)
      | _ \<Rightarrow> None)"

text \<open>
  \<open>Add\<close> is \<open>return a + b;\<close> on two \<open>int\<close>s, with no check. The compiled code
  adds two 32-bit registers, so a sum that does not fit wraps around; that is the value
  the model returns.
\<close>

definition Add :: "ptr \<Rightarrow> c_int \<Rightarrow> c_int \<Rightarrow> world \<Rightarrow> (c_int \<times> world) option" where
  "Add this a b w = Some (a + b, w)"

subsection \<open>The class factory's own methods\<close>

definition SimpleClassFactory :: SimpleClassFactoryStruct where
  "SimpleClassFactory = \<lparr>lpVtbl = ClassFactoryVtbl\<rparr>"

definition Factory_QueryInterface ::
    "ptr \<Rightarrow> GUID \<Rightarrow> nat \<Rightarrow> world \<Rightarrow> (HRESULT \<times> world) option" where
  "Factory_QueryInterface this riid ppv w =
     (if IsEqualGUID riid IID_IUnknown \<or> IsEqualGUID riid IID_IClassFactory
      then Some (S_OK, w\<lparr>slots := (slots w)(ppv := this)\<rparr>)
      else Some (E_NOINTERFACE, w\<lparr>slots := (slots w)(ppv := NULL)\<rparr>))"

definition Factory_AddRef :: "ptr \<Rightarrow> world \<Rightarrow> (ULONG \<times> world) option" where
  "Factory_AddRef this w = Some (2, w)"

definition Factory_Release :: "ptr \<Rightarrow> world \<Rightarrow> (ULONG \<times> world) option" where
  "Factory_Release this w = Some (1, w)"

definition Factory_LockServer :: "ptr \<Rightarrow> bool \<Rightarrow> world \<Rightarrow> (HRESULT \<times> world) option" where
  "Factory_LockServer this fLock w = Some (S_OK, w)"

subsection \<open>Calls through a dispatch table\<close>

text \<open>
  \<open>p->lpVtbl\<close> reads the first field of the object at \<open>p\<close>: a live heap block or
  the static factory. Anything else is not an object.
\<close>

definition read_lpVtbl :: "ptr \<Rightarrow> world \<Rightarrow> vtbl option" where
  "read_lpVtbl p w =
     (case p of
        Heap a \<Rightarrow> map_option lpVtbl (objs w a)
      | Static_SimpleClassFactory \<Rightarrow> Some (lpVtbl SimpleClassFactory)
      | _ \<Rightarrow> None)"

text \<open>The second slot of either table.\<close>

definition vtbl_AddRef :: "vtbl \<Rightarrow> ptr \<Rightarrow> world \<Rightarrow> (ULONG \<times> world) option" where
  "vtbl_AddRef v = (case v of CalculatorVtbl \<Rightarrow> AddRef | ClassFactoryVtbl \<Rightarrow> Factory_AddRef)"

definition QueryInterface ::
    "ptr \<Rightarrow> GUID \<Rightarrow> nat \<Rightarrow> world \<Rightarrow> (HRESULT \<times> world) option" where
  "QueryInterface this riid ppv w =
     (if IsEqualGUID riid IID_IUnknown \<or> IsEqualGUID riid IID_ICalculator
      then
        (let w1 = w\<lparr>slots := (slots w)(ppv := this)\<rparr>
         in case read_lpVtbl this w1 of
              None \<Rightarrow> None
            | Some v \<Rightarrow>
                (case vtbl_AddRef v this w1 of
                   None \<Rightarrow> None
                 | Some (n, w2) \<Rightarrow> Some (S_OK, w2)))
      else Some (E_NOINTERFACE, w\<lparr>slots := (slots w)(ppv := NULL)\<rparr>))"

text \<open>The first and third slots.\<close>

definition vtbl_QueryInterface ::
    "vtbl \<Rightarrow> ptr \<Rightarrow> GUID \<Rightarrow> nat \<Rightarrow> world \<Rightarrow> (HRESULT \<times> world) option" where
  "vtbl_QueryInterface v =
     (case v of CalculatorVtbl \<Rightarrow> QueryInterface | ClassFactoryVtbl \<Rightarrow> Factory_QueryInterface)"

definition vtbl_Release :: "vtbl \<Rightarrow> ptr \<Rightarrow> world \<Rightarrow> (ULONG \<times> world) option" where
  "vtbl_Release v = (case v of CalculatorVtbl \<Rightarrow> Release | ClassFactoryVtbl \<Rightarrow> Factory_Release)"

subsection \<open>Creating a calculator\<close>

text \<open>
  The two stores \<open>obj->lpVtbl = &CalculatorVtbl; obj->count = 1;\<close> fill the whole
  fresh block, so they are one update of \<open>objs\<close>. The two calls that follow go
  through the table just stored.
\<close>

definition Factory_CreateInstance ::
    "ptr \<Rightarrow> ptr \<Rightarrow> GUID \<Rightarrow> nat \<Rightarrow> world \<Rightarrow> (HRESULT \<times> world) option" where
  "Factory_CreateInstance this pUnkOuter riid ppv w =
     (if pUnkOuter \<noteq> NULL then Some (CLASS_E_NOAGGREGATION, w)
      else
        (case malloc w of
           (None, w1) \<Rightarrow> Some (E_OUTOFMEMORY, w1)
         | (Some a, w1) \<Rightarrow>
             (let obj = Heap a;
                  w2 = w1\<lparr>objs := (objs w1)(a \<mapsto> \<lparr>lpVtbl = CalculatorVtbl, count = 1\<rparr>)\<rparr>
              in case read_lpVtbl obj w2 of
                   None \<Rightarrow> None
                 | Some v \<Rightarrow>
                     (case vtbl_QueryInterface v obj riid ppv w2 of
                        None \<Rightarrow> None
                      | Some (hr, w3) \<Rightarrow>
                          (case read_lpVtbl obj w3 of
                             None \<Rightarrow> None
                           | Some v' \<Rightarrow>
                               (case vtbl_Release v' obj w3 of
                                  None \<Rightarrow> None
                                | Some (n, w4) \<Rightarrow> Some (hr, w4)))))))"

subsection \<open>Module entry points\<close>

definition DllGetClassObject ::
    "GUID \<Rightarrow> GUID \<Rightarrow> nat \<Rightarrow> world \<Rightarrow> (HRESULT \<times> world) option" where
  "DllGetClassObject rclsid riid ppv w =
     (if IsEqualGUID rclsid CLSID_SimpleCalculator
      then vtbl_QueryInterface (lpVtbl SimpleClassFactory) Static_SimpleClassFactory riid ppv w
      else Some (CLASS_E_CLASSNOTAVAILABLE, w))"

definition DllCanUnloadNow :: "world \<Rightarrow> (HRESULT \<times> world) option" where
  "DllCanUnloadNow w = Some (S_FALSE, w)"

subsection \<open>Every operation that returns a status\<close>

datatype call =
    Call_QueryInterface ptr GUID nat
  | Call_Factory_QueryInterface ptr GUID nat
  | Call_Factory_CreateInstance ptr ptr GUID nat
  | Call_Factory_LockServer ptr bool
  | Call_DllGetClassObject GUID GUID nat
  | Call_DllCanUnloadNow

fun run_call :: "call \<Rightarrow> world \<Rightarrow> (HRESULT \<times> world) option" where
  "run_call (Call_QueryInterface this riid ppv) w = QueryInterface this riid ppv w"
| "run_call (Call_Factory_QueryInterface this riid ppv) w = Factory_QueryInterface this riid ppv w"
| "run_call (Call_Factory_CreateInstance this pUnkOuter riid ppv) w =
     Factory_CreateInstance this pUnkOuter riid ppv w"
| "run_call (Call_Factory_LockServer this fLock) w = Factory_LockServer this fLock w"
| "run_call (Call_DllGetClassObject rclsid riid ppv) w = DllGetClassObject rclsid riid ppv w"
| "run_call Call_DllCanUnloadNow w = DllCanUnloadNow w"

subsection \<open>A small memory to run the code on\<close>

text \<open>
  An empty heap whose allocator can hand out the addresses in \<open>as\<close>, every caller
  variable holding a foreign pointer.
\<close>

definition fresh_world :: "nat list \<Rightarrow> world" where
  "fresh_world as =
     \<lparr>objs = (\<lambda>a. None), slots = (\<lambda>s. Foreign 0), pool = as, alloc_log = []\<rparr>"

text \<open>The same with one live calculator at address \<open>a\<close> holding count \<open>c\<close>.\<close>

definition world_with :: "nat \<Rightarrow> LONG \<Rightarrow> nat list \<Rightarrow> world" where
  "world_with a c as =
     (fresh_world as)\<lparr>objs := (\<lambda>x. None)(a \<mapsto> \<lparr>lpVtbl = CalculatorVtbl, count = c\<rparr>)\<rparr>"

section \<open>Basic facts\<close>

lemma IsEqualGUID_iff: "IsEqualGUID (g :: GUID) h \<longleftrightarrow> g = h"
  by (auto simp: IsEqualGUID_def)

lemmas status_defs =
  S_OK_def S_FALSE_def E_NOINTERFACE_def E_OUTOFMEMORY_def CLASS_E_NOAGGREGATION_def
  CLASS_E_CLASSNOTAVAILABLE_def

lemmas iid_defs =
  IID_IUnknown_def IID_IClassFactory_def IID_ICalculator_def CLSID_SimpleCalculator_def

lemma malloc_None_eq:
  "fst (malloc w) = None \<Longrightarrow> malloc w = (None, w\<lparr>alloc_log := alloc_log w @ [Malloc None]\<rparr>)"
  by (simp add: malloc_def Let_def)

lemma malloc_Some_eq:
  "fst (malloc w) = Some a \<Longrightarrow>
     malloc w = (Some a, w\<lparr>alloc_log := alloc_log w @ [Malloc (Some a)]\<rparr>) \<and> objs w a = None"
  by (auto simp: malloc_def Let_def find_Some_iff)

lemma QueryInterface_live:
  assumes "IsEqualGUID riid IID_IUnknown \<or> IsEqualGUID riid IID_ICalculator"
    and "objs w a = Some obj" and "lpVtbl obj = CalculatorVtbl"
  shows "QueryInterface (Heap a) riid ppv w =
           Some (S_OK, w\<lparr>slots := (slots w)(ppv := Heap a),
                          objs := (objs w)(a \<mapsto> obj\<lparr>count := count obj + 1\<rparr>)\<rparr>)"
  using assms
  by (simp add: QueryInterface_def read_lpVtbl_def vtbl_AddRef_def AddRef_def Let_def)

lemma QueryInterface_unsupported:
  assumes "\<not> (IsEqualGUID riid IID_IUnknown \<or> IsEqualGUID riid IID_ICalculator)"
  shows "QueryInterface this riid ppv w =
           Some (E_NOINTERFACE, w\<lparr>slots := (slots w)(ppv := NULL)\<rparr>)"
  using assms by (simp add: QueryInterface_def)

lemma Release_live:
  assumes "objs w a = Some obj"
  shows "Release (Heap a) w =
           Some (count obj - 1,
                 if count obj - 1 = 0
                 then w\<lparr>objs := (objs w)(a := None), alloc_log := alloc_log w @ [Free a]\<rparr>
                 else w\<lparr>objs := (objs w)(a \<mapsto> obj\<lparr>count := count obj - 1\<rparr>)\<rparr>)"
  using assms by (simp add: Release_def Let_def free_def)

text \<open>Reading a 32-bit value as a signed number: addition is exact while it fits.\<close>

lemma sint_add_in_range:
  fixes a b :: "32 word"
  assumes "- (2 ^ 31) \<le> sint a + sint b" and "sint a + sint b < 2 ^ 31"
  shows "sint (a + b) = sint a + sint b"
  using assms
  by (simp add: sint_word_ariths signed_take_bit_int_eq_self)

lemma sint_succ:
  fixes c :: "32 word"
  assumes "sint c < 2 ^ 31 - 1"
  shows "sint (c + 1) = sint c + 1"
proof -
  have "- (2 ^ 31) \<le> sint c" using sint_ge [of c] by simp
  then show ?thesis using assms sint_add_in_range [of c 1] by simp
qed

lemma CreateInstance_alloc_fails:
  assumes "fst (malloc w) = None"
  shows "Factory_CreateInstance this NULL riid ppv w =
           Some (E_OUTOFMEMORY, w\<lparr>alloc_log := alloc_log w @ [Malloc None]\<rparr>)"
  using malloc_None_eq [OF assms] by (simp add: Factory_CreateInstance_def)

lemma CreateInstance_steps:
  assumes "fst (malloc w) = Some a"
  shows "Factory_CreateInstance this NULL riid ppv w =
     (let w2 = w\<lparr>alloc_log := alloc_log w @ [Malloc (Some a)],
                 objs := (objs w)(a \<mapsto> \<lparr>lpVtbl = CalculatorVtbl, count = 1\<rparr>)\<rparr>
      in case QueryInterface (Heap a) riid ppv w2 of
           None \<Rightarrow> None
         | Some (hr, w3) \<Rightarrow>
             (case read_lpVtbl (Heap a) w3 of
                None \<Rightarrow> None
              | Some v' \<Rightarrow>
                  (case vtbl_Release v' (Heap a) w3 of
                     None \<Rightarrow> None
                   | Some (n, w4) \<Rightarrow> Some (hr, w4))))"
  using malloc_Some_eq [OF assms]
  by (simp add: Factory_CreateInstance_def Let_def read_lpVtbl_def vtbl_QueryInterface_def)

lemma QueryInterface_status:
  "QueryInterface this riid ppv w = Some (hr, w') \<Longrightarrow> hr = S_OK \<or> hr = E_NOINTERFACE"
  by (auto simp: QueryInterface_def Let_def split: if_splits option.splits)

lemma Factory_QueryInterface_status:
  "Factory_QueryInterface this riid ppv w = Some (hr, w') \<Longrightarrow> hr = S_OK \<or> hr = E_NOINTERFACE"
  by (auto simp: Factory_QueryInterface_def split: if_splits)

lemma Factory_CreateInstance_status:
  assumes "Factory_CreateInstance this pUnkOuter riid ppv w = Some (hr, w')"
  shows "hr = S_OK \<or> hr = E_NOINTERFACE \<or> hr = CLASS_E_NOAGGREGATION \<or> hr = E_OUTOFMEMORY"
proof (cases "pUnkOuter \<noteq> NULL")
  case True
  with assms show ?thesis by (simp add: Factory_CreateInstance_def)
next
  case outer: False
  show ?thesis
  proof (cases "fst (malloc w)")
    case None
    with assms outer show ?thesis
      using CreateInstance_alloc_fails [of w this riid ppv] by simp
  next
    case (Some a)
    with assms outer obtain w3 where "QueryInterface (Heap a) riid ppv
        (w\<lparr>alloc_log := alloc_log w @ [Malloc (Some a)],
           objs := (objs w)(a \<mapsto> \<lparr>lpVtbl = CalculatorVtbl, count = 1\<rparr>)\<rparr>) = Some (hr, w3)"
      using CreateInstance_steps [of w a this riid ppv]
      by (auto simp: Let_def split: option.splits)
    then show ?thesis using QueryInterface_status by blast
  qed
qed

lemma DllGetClassObject_status:
  "DllGetClassObject rclsid riid ppv w = Some (hr, w') \<Longrightarrow>
     hr = S_OK \<or> hr = E_NOINTERFACE \<or> hr = CLASS_E_CLASSNOTAVAILABLE"
  by (auto simp: DllGetClassObject_def SimpleClassFactory_def vtbl_QueryInterface_def
        split: if_splits dest: Factory_QueryInterface_status)

lemma run_call_status_by_call:
  assumes "run_call c w = Some (hr, w')"
  shows "case c of
           Call_QueryInterface this riid ppv \<Rightarrow> hr = S_OK \<or> hr = E_NOINTERFACE
         | Call_Factory_QueryInterface this riid ppv \<Rightarrow> hr = S_OK \<or> hr = E_NOINTERFACE
         | Call_Factory_CreateInstance this pUnkOuter riid ppv \<Rightarrow>
             hr = S_OK \<or> hr = E_NOINTERFACE \<or> hr = CLASS_E_NOAGGREGATION \<or> hr = E_OUTOFMEMORY
         | Call_Factory_LockServer this fLock \<Rightarrow> hr = S_OK
         | Call_DllGetClassObject rclsid riid ppv \<Rightarrow>
             hr = S_OK \<or> hr = E_NOINTERFACE \<or> hr = CLASS_E_CLASSNOTAVAILABLE
         | Call_DllCanUnloadNow \<Rightarrow> hr = S_FALSE"
proof (cases c)
  case (Call_QueryInterface this riid ppv)
  with assms show ?thesis using QueryInterface_status by simp
next
  case (Call_Factory_QueryInterface this riid ppv)
  with assms show ?thesis using Factory_QueryInterface_status by simp
next
  case (Call_Factory_CreateInstance this pUnkOuter riid ppv)
  with assms show ?thesis using Factory_CreateInstance_status by simp
next
  case (Call_Factory_LockServer this fLock)
  with assms show ?thesis by (simp add: Factory_LockServer_def)
next
  case (Call_DllGetClassObject rclsid riid ppv)
  with assms show ?thesis using DllGetClassObject_status by simp
next
  case Call_DllCanUnloadNow
  with assms show ?thesis by (simp add: DllCanUnloadNow_def)
qed

section \<open>Querying the calculator\<close>

text \<open>
  C2. For each of the two identifiers the calculator supports (the base unknown
  identifier and the calculator identifier), a query on a live calculator instance
  succeeds with \<open>S_OK\<close>, stores in the caller's variable a non-null pointer to that
  same instance, and adds exactly one to the instance's count, changing nothing else.
  The count is a 32-bit \<open>long\<close>: the addition is the machine's, and it is the exact
  successor on the signed reading as long as the count is below the largest \<open>long\<close>.
\<close>

theorem QueryInterface_supported_increments:
  assumes "IsEqualGUID riid IID_IUnknown \<or> IsEqualGUID riid IID_ICalculator"
    and "objs w a = Some obj" and "lpVtbl obj = CalculatorVtbl"
  shows "QueryInterface (Heap a) riid ppv w =
           Some (S_OK, w\<lparr>slots := (slots w)(ppv := Heap a),
                          objs := (objs w)(a \<mapsto> obj\<lparr>count := count obj + 1\<rparr>)\<rparr>)
         \<and> Heap a \<noteq> NULL
         \<and> (sint (count obj) < 2 ^ 31 - 1 \<longrightarrow> sint (count obj + 1) = sint (count obj) + 1)"
  using assms by (simp add: QueryInterface_live sint_succ)

theorem QueryInterface_supported_increments_witness:
  "(IsEqualGUID IID_ICalculator IID_IUnknown \<or> IsEqualGUID IID_ICalculator IID_ICalculator)
   \<and> objs (world_with 7 1 []) 7 = Some \<lparr>lpVtbl = CalculatorVtbl, count = 1\<rparr>
   \<and> QueryInterface (Heap 7) IID_ICalculator 3 (world_with 7 1 []) =
       Some (S_OK, (world_with 7 2 [])\<lparr>slots := (\<lambda>s. Foreign 0)(3 := Heap 7)\<rparr>)
   \<and> sint (1 + 1 :: 32 word) = 2"
  using QueryInterface_supported_increments
          [of IID_ICalculator "world_with 7 1 []" 7 "\<lparr>lpVtbl = CalculatorVtbl, count = 1\<rparr>" 3]
  by (simp add: IsEqualGUID_def world_with_def fresh_world_def)

text \<open>
  C5. For every identifier other than the two the calculator supports, a query stores
  null in the caller's variable and returns \<open>E_NOINTERFACE\<close>; no object is touched, so
  every count is what it was. The object pointer is not even read on this path.
\<close>

theorem QueryInterface_unsupported_null:
  assumes "\<not> (IsEqualGUID riid IID_IUnknown \<or> IsEqualGUID riid IID_ICalculator)"
  shows "QueryInterface this riid ppv w =
           Some (E_NOINTERFACE, w\<lparr>slots := (slots w)(ppv := NULL)\<rparr>)
         \<and> slots (w\<lparr>slots := (slots w)(ppv := NULL)\<rparr>) ppv = NULL
         \<and> objs (w\<lparr>slots := (slots w)(ppv := NULL)\<rparr>) = objs w"
  using assms by (simp add: QueryInterface_unsupported)

theorem QueryInterface_unsupported_null_witness:
  "\<not> (IsEqualGUID IID_IClassFactory IID_IUnknown \<or> IsEqualGUID IID_IClassFactory IID_ICalculator)
   \<and> QueryInterface (Heap 7) IID_IClassFactory 3 (world_with 7 1 []) =
       Some (E_NOINTERFACE, (world_with 7 1 [])\<lparr>slots := (\<lambda>s. Foreign 0)(3 := NULL)\<rparr>)
   \<and> objs (world_with 7 1 []) 7 = Some \<lparr>lpVtbl = CalculatorVtbl, count = 1\<rparr>"
  using QueryInterface_unsupported_null [of IID_IClassFactory "Heap 7" 3 "world_with 7 1 []"]
  by (simp add: IsEqualGUID_def IID_IClassFactory_def IID_IUnknown_def IID_ICalculator_def
        world_with_def fresh_world_def)

section \<open>Creating instances\<close>

text \<open>
  C1. With a null outer aggregate:
  \<^item> when the allocator has no block to give, \<open>CreateInstance\<close> returns
    \<open>E_OUTOFMEMORY\<close> (whatever the identifier), and nothing but the allocation log
    changes;
  \<^item> when it returns a block \<open>a\<close> and the identifier is one the calculator supports, the
    block is fresh, it is initialised with the calculator's table and count 1, the query
    takes the count to 2 and stores the instance in the caller's variable, and the
    factory's own release brings the count back to 1. \<open>CreateInstance\<close> returns
    \<open>S_OK\<close>; the caller's variable holds the instance, whose count is 1, and one
    release by the caller returns 0 and frees the block: the heap is as it was before
    the creation.
\<close>

theorem CreateInstance_supported:
  "(fst (malloc w) = None \<longrightarrow>
      Factory_CreateInstance this NULL riid ppv w =
        Some (E_OUTOFMEMORY, w\<lparr>alloc_log := alloc_log w @ [Malloc None]\<rparr>))
   \<and> ((IsEqualGUID riid IID_IUnknown \<or> IsEqualGUID riid IID_ICalculator)
        \<and> fst (malloc w) = Some a \<longrightarrow>
      objs w a = None
      \<and> QueryInterface (Heap a) riid ppv
          (w\<lparr>alloc_log := alloc_log w @ [Malloc (Some a)],
             objs := (objs w)(a \<mapsto> \<lparr>lpVtbl = CalculatorVtbl, count = 1\<rparr>)\<rparr>) =
          Some (S_OK,
            w\<lparr>alloc_log := alloc_log w @ [Malloc (Some a)],
              slots := (slots w)(ppv := Heap a),
              objs := (objs w)(a \<mapsto> \<lparr>lpVtbl = CalculatorVtbl, count = 2\<rparr>)\<rparr>)
      \<and> Release (Heap a)
          (w\<lparr>alloc_log := alloc_log w @ [Malloc (Some a)],
             slots := (slots w)(ppv := Heap a),
             objs := (objs w)(a \<mapsto> \<lparr>lpVtbl = CalculatorVtbl, count = 2\<rparr>)\<rparr>) =
          Some (1,
            w\<lparr>alloc_log := alloc_log w @ [Malloc (Some a)],
              slots := (slots w)(ppv := Heap a),
              objs := (objs w)(a \<mapsto> \<lparr>lpVtbl = CalculatorVtbl, count = 1\<rparr>)\<rparr>)
      \<and> Factory_CreateInstance this NULL riid ppv w =
          Some (S_OK,
            w\<lparr>alloc_log := alloc_log w @ [Malloc (Some a)],
              slots := (slots w)(ppv := Heap a),
              objs := (objs w)(a \<mapsto> \<lparr>lpVtbl = CalculatorVtbl, count = 1\<rparr>)\<rparr>)
      \<and> Release (Heap a)
          (w\<lparr>alloc_log := alloc_log w @ [Malloc (Some a)],
             slots := (slots w)(ppv := Heap a),
             objs := (objs w)(a \<mapsto> \<lparr>lpVtbl = CalculatorVtbl, count = 1\<rparr>)\<rparr>) =
          Some (0,
            w\<lparr>alloc_log := alloc_log w @ [Malloc (Some a), Free a],
              slots := (slots w)(ppv := Heap a)\<rparr>))"
proof (intro conjI impI)
  assume "fst (malloc w) = None"
  then show "Factory_CreateInstance this NULL riid ppv w =
        Some (E_OUTOFMEMORY, w\<lparr>alloc_log := alloc_log w @ [Malloc None]\<rparr>)"
    by (rule CreateInstance_alloc_fails)
next
  assume h: "(IsEqualGUID riid IID_IUnknown \<or> IsEqualGUID riid IID_ICalculator)
        \<and> fst (malloc w) = Some a"
  then have sup: "IsEqualGUID riid IID_IUnknown \<or> IsEqualGUID riid IID_ICalculator"
    and m: "fst (malloc w) = Some a" by simp_all
  show fresh: "objs w a = None" using malloc_Some_eq [OF m] by simp
  let ?w2 = "w\<lparr>alloc_log := alloc_log w @ [Malloc (Some a)],
             objs := (objs w)(a \<mapsto> \<lparr>lpVtbl = CalculatorVtbl, count = 1\<rparr>)\<rparr>"
  let ?w3 = "w\<lparr>alloc_log := alloc_log w @ [Malloc (Some a)],
              slots := (slots w)(ppv := Heap a),
              objs := (objs w)(a \<mapsto> \<lparr>lpVtbl = CalculatorVtbl, count = 2\<rparr>)\<rparr>"
  let ?w4 = "w\<lparr>alloc_log := alloc_log w @ [Malloc (Some a)],
              slots := (slots w)(ppv := Heap a),
              objs := (objs w)(a \<mapsto> \<lparr>lpVtbl = CalculatorVtbl, count = 1\<rparr>)\<rparr>"
  show qi: "QueryInterface (Heap a) riid ppv ?w2 = Some (S_OK, ?w3)"
    using QueryInterface_live [OF sup, of ?w2 a "\<lparr>lpVtbl = CalculatorVtbl, count = 1\<rparr>" ppv]
    by simp
  show rel: "Release (Heap a) ?w3 = Some (1, ?w4)"
    using Release_live [of ?w3 a "\<lparr>lpVtbl = CalculatorVtbl, count = 2\<rparr>"]
    by simp
  show "Factory_CreateInstance this NULL riid ppv w = Some (S_OK, ?w4)"
    using CreateInstance_steps [OF m, of this riid ppv] qi rel
    by (simp add: read_lpVtbl_def vtbl_Release_def)
  show "Release (Heap a) ?w4 =
          Some (0, w\<lparr>alloc_log := alloc_log w @ [Malloc (Some a), Free a],
              slots := (slots w)(ppv := Heap a)\<rparr>)"
    using Release_live [of ?w4 a "\<lparr>lpVtbl = CalculatorVtbl, count = 1\<rparr>"] fresh
    by (simp add: fun_upd_idem)
qed


theorem CreateInstance_supported_witness:
  "fst (malloc (fresh_world [])) = None
   \<and> Factory_CreateInstance Static_SimpleClassFactory NULL IID_ICalculator 0 (fresh_world []) =
       Some (E_OUTOFMEMORY,
         \<lparr>objs = (\<lambda>a. None), slots = (\<lambda>s. Foreign 0), pool = [], alloc_log = [Malloc None]\<rparr>)
   \<and> IsEqualGUID IID_ICalculator IID_ICalculator
   \<and> fst (malloc (fresh_world [4])) = Some 4
   \<and> Factory_CreateInstance Static_SimpleClassFactory NULL IID_ICalculator 0 (fresh_world [4]) =
       Some (S_OK,
         \<lparr>objs = (\<lambda>a. None)(4 \<mapsto> \<lparr>lpVtbl = CalculatorVtbl, count = 1\<rparr>),
          slots = (\<lambda>s. Foreign 0)(0 := Heap 4), pool = [4],
          alloc_log = [Malloc (Some 4)]\<rparr>)
   \<and> Release (Heap 4)
         \<lparr>objs = (\<lambda>a. None)(4 \<mapsto> \<lparr>lpVtbl = CalculatorVtbl, count = 1\<rparr>),
          slots = (\<lambda>s. Foreign 0)(0 := Heap 4), pool = [4],
          alloc_log = [Malloc (Some 4)]\<rparr> =
       Some (0,
         \<lparr>objs = (\<lambda>a. None), slots = (\<lambda>s. Foreign 0)(0 := Heap 4), pool = [4],
          alloc_log = [Malloc (Some 4), Free 4]\<rparr>)"
  using CreateInstance_supported
          [of "fresh_world []" Static_SimpleClassFactory IID_ICalculator 0 4]
        CreateInstance_supported
          [of "fresh_world [4]" Static_SimpleClassFactory IID_ICalculator 0 4]
  by (simp add: IsEqualGUID_def malloc_def Let_def fresh_world_def)

text \<open>
  C6. With a non-null outer aggregate, \<open>CreateInstance\<close> returns
  \<open>CLASS_E_NOAGGREGATION\<close> for every identifier and leaves the whole memory as it
  was: no block is allocated, the allocation log has no new entry, and the caller's
  variable is not written.
\<close>

theorem CreateInstance_aggregation_refused:
  assumes "pUnkOuter \<noteq> NULL"
  shows "Factory_CreateInstance this pUnkOuter riid ppv w = Some (CLASS_E_NOAGGREGATION, w)"
  using assms by (simp add: Factory_CreateInstance_def)

theorem CreateInstance_aggregation_refused_witness:
  "Foreign 9 \<noteq> NULL
   \<and> Factory_CreateInstance Static_SimpleClassFactory (Foreign 9) IID_ICalculator 0
        (fresh_world [4]) = Some (CLASS_E_NOAGGREGATION, fresh_world [4])"
  using CreateInstance_aggregation_refused
          [of "Foreign 9" Static_SimpleClassFactory IID_ICalculator 0 "fresh_world [4]"]
  by simp

text \<open>
  C10, as the claim states it, fails: with a null outer aggregate and an identifier the
  calculator does not support (the creation identifier), an allocator that has no block
  to give makes \<open>CreateInstance\<close> return \<open>E_OUTOFMEMORY\<close>, not
  \<open>E_NOINTERFACE\<close>. The call returns before the query, so the caller's variable is
  not written: it still holds the non-null pointer it held before.
\<close>

theorem CreateInstance_unsupported_out_of_memory:
  "Factory_CreateInstance Static_SimpleClassFactory NULL IID_IClassFactory 0 (fresh_world []) =
     Some (E_OUTOFMEMORY,
       \<lparr>objs = (\<lambda>a. None), slots = (\<lambda>s. Foreign 0), pool = [], alloc_log = [Malloc None]\<rparr>)
   \<and> \<not> IsEqualGUID IID_IClassFactory IID_IUnknown
   \<and> \<not> IsEqualGUID IID_IClassFactory IID_ICalculator
   \<and> E_OUTOFMEMORY \<noteq> E_NOINTERFACE
   \<and> slots \<lparr>objs = (\<lambda>a. None), slots = (\<lambda>s. Foreign 0), pool = [],
              alloc_log = [Malloc None]\<rparr> 0 = Foreign 0
   \<and> Foreign 0 \<noteq> NULL"
  by (simp add: Factory_CreateInstance_def malloc_def Let_def fresh_world_def IsEqualGUID_def
        iid_defs status_defs)

text \<open>
  C10, amended. With a null outer aggregate, an identifier the calculator does not
  support, and an allocation that succeeds with a block \<open>a\<close>: \<open>CreateInstance\<close>
  returns \<open>E_NOINTERFACE\<close>, the caller's variable holds null, and the block has been
  freed again before the return (the log shows the allocation of \<open>a\<close> followed by its
  release); the live objects are exactly those from before the call, so the failed
  creation leaks nothing and leaves no instance behind.
\<close>

theorem CreateInstance_unsupported_frees:
  assumes unsup: "\<not> (IsEqualGUID riid IID_IUnknown \<or> IsEqualGUID riid IID_ICalculator)"
    and m: "fst (malloc w) = Some a"
  shows "Factory_CreateInstance this NULL riid ppv w =
           Some (E_NOINTERFACE,
             w\<lparr>alloc_log := alloc_log w @ [Malloc (Some a), Free a],
               slots := (slots w)(ppv := NULL)\<rparr>)"
proof -
  let ?w2 = "w\<lparr>alloc_log := alloc_log w @ [Malloc (Some a)],
             objs := (objs w)(a \<mapsto> \<lparr>lpVtbl = CalculatorVtbl, count = 1\<rparr>)\<rparr>"
  let ?w3 = "?w2\<lparr>slots := (slots ?w2)(ppv := NULL)\<rparr>"
  have fresh: "objs w a = None" using malloc_Some_eq [OF m] by simp
  have qi: "QueryInterface (Heap a) riid ppv ?w2 = Some (E_NOINTERFACE, ?w3)"
    by (rule QueryInterface_unsupported [OF unsup])
  have rel: "Release (Heap a) ?w3 =
          Some (0, w\<lparr>alloc_log := alloc_log w @ [Malloc (Some a), Free a],
               slots := (slots w)(ppv := NULL)\<rparr>)"
    using Release_live [of ?w3 a "\<lparr>lpVtbl = CalculatorVtbl, count = 1\<rparr>"] fresh
    by (simp add: fun_upd_idem)
  show ?thesis
    using CreateInstance_steps [OF m, of this riid ppv] qi rel
    by (simp add: read_lpVtbl_def vtbl_Release_def)
qed

theorem CreateInstance_unsupported_frees_witness:
  "\<not> (IsEqualGUID IID_IClassFactory IID_IUnknown \<or> IsEqualGUID IID_IClassFactory IID_ICalculator)
   \<and> fst (malloc (world_with 7 1 [7, 4])) = Some 4
   \<and> Factory_CreateInstance Static_SimpleClassFactory NULL IID_IClassFactory 0
        (world_with 7 1 [7, 4]) =
       Some (E_NOINTERFACE,
         \<lparr>objs = (\<lambda>a. None)(7 \<mapsto> \<lparr>lpVtbl = CalculatorVtbl, count = 1\<rparr>),
          slots = (\<lambda>s. Foreign 0)(0 := NULL), pool = [7, 4],
          alloc_log = [Malloc (Some 4), Free 4]\<rparr>)"
  using CreateInstance_unsupported_frees
          [of IID_IClassFactory "world_with 7 1 [7, 4]" 4 Static_SimpleClassFactory 0]
  by (simp add: IsEqualGUID_def IID_IClassFactory_def IID_IUnknown_def IID_ICalculator_def
        malloc_def Let_def world_with_def fresh_world_def)

section \<open>The calculator's arithmetic\<close>

text \<open>
  C8. \<open>Add\<close> returns the sum of its two arguments and leaves the memory as it was,
  for every pair of arguments; it does not look at its object pointer. The sum is the
  32-bit machine sum, with no overflow check: it is the mathematical sum whenever that
  fits in an \<open>int\<close>, and wraps around otherwise (the largest \<open>int\<close> plus one is the
  smallest). In particular \<open>Add(2,3) = 5\<close>, \<open>Add(-1,1) = 0\<close> and \<open>Add(0,0) = 0\<close>.
\<close>

theorem Add_is_machine_addition:
  "Add this a b w = Some (a + b, w)
   \<and> (- (2 ^ 31) \<le> sint a + sint b \<and> sint a + sint b < 2 ^ 31 \<longrightarrow>
        map_option (sint \<circ> fst) (Add this a b w) = Some (sint a + sint b))
   \<and> Add this 2 3 w = Some (5, w)
   \<and> Add this (- 1) 1 w = Some (0, w)
   \<and> Add this 0 0 w = Some (0, w)
   \<and> Add this 0x7FFFFFFF 1 w = Some (0x80000000, w)
   \<and> sint (0x80000000 :: c_int) = - (2 ^ 31)"
  by (simp add: Add_def sint_add_in_range)

theorem Add_is_machine_addition_witness:
  "- (2 ^ 31) \<le> sint (2 :: c_int) + sint (3 :: c_int)
   \<and> sint (2 :: c_int) + sint (3 :: c_int) < 2 ^ 31
   \<and> map_option (sint \<circ> fst) (Add (Heap 7) 2 3 (world_with 7 1 [])) = Some 5
   \<and> Add (Heap 7) 2 3 (world_with 7 1 []) = Some (5, world_with 7 1 [])"
  using Add_is_machine_addition [of "Heap 7" 2 3 "world_with 7 1 []"]
  by simp

section \<open>The class factory\<close>

text \<open>
  C9. The factory is one static object: in every state of the memory its address holds
  the factory's dispatch table, whose retain and release slots are \<open>Factory_AddRef\<close>
  and \<open>Factory_Release\<close>. A retain returns 2 and a release returns 1, both nonzero,
  on every call, and neither changes the memory: nothing is counted, nothing is freed.
\<close>

theorem Factory_counting_is_a_no_op:
  "Factory_AddRef this w = Some (2, w)
   \<and> Factory_Release this w = Some (1, w)
   \<and> (2 :: ULONG) \<noteq> 0 \<and> (1 :: ULONG) \<noteq> 0
   \<and> read_lpVtbl Static_SimpleClassFactory w = Some ClassFactoryVtbl
   \<and> vtbl_AddRef ClassFactoryVtbl = Factory_AddRef
   \<and> vtbl_Release ClassFactoryVtbl = Factory_Release"
  by (simp add: Factory_AddRef_def Factory_Release_def read_lpVtbl_def SimpleClassFactory_def
        vtbl_AddRef_def vtbl_Release_def)

text \<open>
  C3, as the claim states it, fails: a query on the factory for the creation identifier
  succeeds, yet the only change to the memory is the caller's variable. The one count in
  memory (that of the calculator at address 7) is still 1, and the count the factory
  reports on release is 1 before the query and 1 after it. No count was incremented.
\<close>

theorem Factory_QueryInterface_counts_nothing:
  "Factory_QueryInterface Static_SimpleClassFactory IID_IClassFactory 0 (world_with 7 1 [4]) =
     Some (S_OK,
       \<lparr>objs = (\<lambda>a. None)(7 \<mapsto> \<lparr>lpVtbl = CalculatorVtbl, count = 1\<rparr>),
        slots = (\<lambda>s. Foreign 0)(0 := Static_SimpleClassFactory), pool = [4], alloc_log = []\<rparr>)
   \<and> objs (world_with 7 1 [4]) = (\<lambda>a. None)(7 \<mapsto> \<lparr>lpVtbl = CalculatorVtbl, count = 1\<rparr>)
   \<and> map_option fst (Factory_Release Static_SimpleClassFactory (world_with 7 1 [4])) = Some 1
   \<and> map_option fst (Factory_Release Static_SimpleClassFactory
       \<lparr>objs = (\<lambda>a. None)(7 \<mapsto> \<lparr>lpVtbl = CalculatorVtbl, count = 1\<rparr>),
        slots = (\<lambda>s. Foreign 0)(0 := Static_SimpleClassFactory), pool = [4], alloc_log = []\<rparr>)
      = Some 1"
  by (simp add: Factory_QueryInterface_def Factory_Release_def IsEqualGUID_def iid_defs
        world_with_def fresh_world_def)

text \<open>
  C3, amended. For each of the two identifiers the factory supports (the base unknown
  identifier and the creation identifier), the factory's query returns \<open>S_OK\<close> and
  stores in the caller's variable the pointer it was called on, which for the static
  factory is non-null and addresses an object with the factory's dispatch table. Nothing
  else changes: the factory keeps no count, and what its retain and release report is the
  same after the query as before.
\<close>

theorem Factory_QueryInterface_supported:
  assumes "IsEqualGUID riid IID_IUnknown \<or> IsEqualGUID riid IID_IClassFactory"
  shows "Factory_QueryInterface this riid ppv w = Some (S_OK, w\<lparr>slots := (slots w)(ppv := this)\<rparr>)
         \<and> Static_SimpleClassFactory \<noteq> NULL
         \<and> read_lpVtbl Static_SimpleClassFactory (w\<lparr>slots := (slots w)(ppv := this)\<rparr>) =
             Some ClassFactoryVtbl
         \<and> map_option fst (Factory_AddRef this (w\<lparr>slots := (slots w)(ppv := this)\<rparr>)) =
             map_option fst (Factory_AddRef this w)
         \<and> map_option fst (Factory_Release this (w\<lparr>slots := (slots w)(ppv := this)\<rparr>)) =
             map_option fst (Factory_Release this w)"
  using assms
  by (simp add: Factory_QueryInterface_def read_lpVtbl_def SimpleClassFactory_def
        Factory_AddRef_def Factory_Release_def)

theorem Factory_QueryInterface_supported_witness:
  "(IsEqualGUID IID_IUnknown IID_IUnknown \<or> IsEqualGUID IID_IUnknown IID_IClassFactory)
   \<and> Factory_QueryInterface Static_SimpleClassFactory IID_IUnknown 5 (fresh_world [4]) =
       Some (S_OK, (fresh_world [4])\<lparr>slots := (\<lambda>s. Foreign 0)(5 := Static_SimpleClassFactory)\<rparr>)"
  using Factory_QueryInterface_supported
          [of IID_IUnknown Static_SimpleClassFactory 5 "fresh_world [4]"]
  by (simp add: IsEqualGUID_def fresh_world_def)

section \<open>The module's entry point\<close>

text \<open>
  C7. \<open>DllGetClassObject\<close> with a class identifier other than
  \<open>CLSID_SimpleCalculator\<close> returns \<open>CLASS_E_CLASSNOTAVAILABLE\<close> and leaves the
  whole memory as it was (no allocation, no write to the caller's variable). With
  \<open>CLSID_SimpleCalculator\<close> it returns exactly what the factory's query returns for the
  requested identifier, status and memory alike.
\<close>

theorem DllGetClassObject_delegates:
  "(\<not> IsEqualGUID rclsid CLSID_SimpleCalculator \<longrightarrow>
      DllGetClassObject rclsid riid ppv w = Some (CLASS_E_CLASSNOTAVAILABLE, w))
   \<and> (IsEqualGUID rclsid CLSID_SimpleCalculator \<longrightarrow>
      DllGetClassObject rclsid riid ppv w =
        Factory_QueryInterface Static_SimpleClassFactory riid ppv w)"
  by (simp add: DllGetClassObject_def SimpleClassFactory_def vtbl_QueryInterface_def)

theorem DllGetClassObject_delegates_witness:
  "\<not> IsEqualGUID IID_ICalculator CLSID_SimpleCalculator
   \<and> DllGetClassObject IID_ICalculator IID_IClassFactory 0 (world_with 7 1 [4]) =
       Some (CLASS_E_CLASSNOTAVAILABLE, world_with 7 1 [4])
   \<and> IsEqualGUID CLSID_SimpleCalculator CLSID_SimpleCalculator
   \<and> DllGetClassObject CLSID_SimpleCalculator IID_IClassFactory 0 (world_with 7 1 [4]) =
       Some (S_OK, (world_with 7 1 [4])\<lparr>slots := (\<lambda>s. Foreign 0)(0 := Static_SimpleClassFactory)\<rparr>)
   \<and> DllGetClassObject CLSID_SimpleCalculator IID_ICalculator 0 (world_with 7 1 [4]) =
       Some (E_NOINTERFACE, (world_with 7 1 [4])\<lparr>slots := (\<lambda>s. Foreign 0)(0 := NULL)\<rparr>)"
  using DllGetClassObject_delegates [of IID_ICalculator IID_IClassFactory 0 "world_with 7 1 [4]"]
        DllGetClassObject_delegates
          [of CLSID_SimpleCalculator IID_IClassFactory 0 "world_with 7 1 [4]"]
        DllGetClassObject_delegates
          [of CLSID_SimpleCalculator IID_ICalculator 0 "world_with 7 1 [4]"]
  by (simp add: Factory_QueryInterface_def IsEqualGUID_def iid_defs world_with_def
        fresh_world_def)

section \<open>Status codes\<close>

text \<open>
  C4, as the claim states it, fails: \<open>DllGetClassObject\<close> with an unknown class
  identifier returns \<open>CLASS_E_CLASSNOTAVAILABLE\<close>, a failure status that is none of
  the three the claim lists.
\<close>

theorem class_not_available_is_a_fourth_failure:
  "run_call (Call_DllGetClassObject IID_ICalculator IID_IUnknown 0) (fresh_world []) =
     Some (CLASS_E_CLASSNOTAVAILABLE, fresh_world [])
   \<and> FAILED CLASS_E_CLASSNOTAVAILABLE
   \<and> CLASS_E_CLASSNOTAVAILABLE \<noteq> E_NOINTERFACE
   \<and> CLASS_E_CLASSNOTAVAILABLE \<noteq> CLASS_E_NOAGGREGATION
   \<and> CLASS_E_CLASSNOTAVAILABLE \<noteq> E_OUTOFMEMORY"
  by (simp add: DllGetClassObject_def IsEqualGUID_def iid_defs status_defs FAILED_def)

text \<open>
  C4, amended. Every call that returns a status returns one of six: the success codes
  \<open>S_OK\<close> and \<open>S_FALSE\<close> (the latter only from \<open>DllCanUnloadNow\<close>), or one of
  exactly four distinct failure codes: \<open>E_NOINTERFACE\<close> (unsupported capability
  query), \<open>CLASS_E_NOAGGREGATION\<close> (attempted aggregation), \<open>E_OUTOFMEMORY\<close>
  (allocation failure) and \<open>CLASS_E_CLASSNOTAVAILABLE\<close> (only from
  \<open>DllGetClassObject\<close>, for an unknown class identifier). Each of the four failures is
  returned on some input.
\<close>

theorem status_codes_of_every_call:
  "(run_call c w = Some (hr, w') \<longrightarrow>
      hr = S_OK \<or> hr = S_FALSE \<or> hr = E_NOINTERFACE \<or> hr = CLASS_E_NOAGGREGATION
      \<or> hr = E_OUTOFMEMORY \<or> hr = CLASS_E_CLASSNOTAVAILABLE)
   \<and> (run_call c w = Some (S_FALSE, w') \<longrightarrow> c = Call_DllCanUnloadNow)
   \<and> (run_call c w = Some (CLASS_E_CLASSNOTAVAILABLE, w') \<longrightarrow>
        (case c of Call_DllGetClassObject rclsid riid ppv \<Rightarrow>
           \<not> IsEqualGUID rclsid CLSID_SimpleCalculator | _ \<Rightarrow> False))
   \<and> SUCCEEDED S_OK \<and> SUCCEEDED S_FALSE
   \<and> FAILED E_NOINTERFACE \<and> FAILED CLASS_E_NOAGGREGATION
   \<and> FAILED E_OUTOFMEMORY \<and> FAILED CLASS_E_CLASSNOTAVAILABLE
   \<and> distinct [E_NOINTERFACE, CLASS_E_NOAGGREGATION, E_OUTOFMEMORY, CLASS_E_CLASSNOTAVAILABLE]
   \<and> run_call (Call_QueryInterface NULL IID_IClassFactory 0) (fresh_world []) =
        Some (E_NOINTERFACE, (fresh_world [])\<lparr>slots := (\<lambda>s. Foreign 0)(0 := NULL)\<rparr>)
   \<and> run_call (Call_Factory_CreateInstance Static_SimpleClassFactory (Foreign 1) IID_IUnknown 0)
        (fresh_world []) = Some (CLASS_E_NOAGGREGATION, fresh_world [])
   \<and> run_call (Call_Factory_CreateInstance Static_SimpleClassFactory NULL IID_IUnknown 0)
        (fresh_world []) = Some (E_OUTOFMEMORY, (fresh_world [])\<lparr>alloc_log := [Malloc None]\<rparr>)
   \<and> run_call (Call_DllGetClassObject IID_IUnknown IID_IUnknown 0) (fresh_world []) =
        Some (CLASS_E_CLASSNOTAVAILABLE, fresh_world [])"
proof -
  have range: "run_call c w = Some (hr, w') \<longrightarrow>
      hr = S_OK \<or> hr = S_FALSE \<or> hr = E_NOINTERFACE \<or> hr = CLASS_E_NOAGGREGATION
      \<or> hr = E_OUTOFMEMORY \<or> hr = CLASS_E_CLASSNOTAVAILABLE"
    using run_call_status_by_call [of c w hr w'] by (cases c) auto
  have sfalse: "run_call c w = Some (S_FALSE, w') \<longrightarrow> c = Call_DllCanUnloadNow"
    using run_call_status_by_call [of c w S_FALSE w'] by (cases c) (auto simp: status_defs)
  have cna: "run_call c w = Some (CLASS_E_CLASSNOTAVAILABLE, w') \<longrightarrow>
        (case c of Call_DllGetClassObject rclsid riid ppv \<Rightarrow>
           \<not> IsEqualGUID rclsid CLSID_SimpleCalculator | _ \<Rightarrow> False)"
  proof (cases c)
    case (Call_DllGetClassObject rclsid riid ppv)
    then show ?thesis
      using Factory_QueryInterface_status
        [of Static_SimpleClassFactory riid ppv w CLASS_E_CLASSNOTAVAILABLE w']
      by (auto simp: DllGetClassObject_def SimpleClassFactory_def vtbl_QueryInterface_def
            status_defs)
  qed (use run_call_status_by_call [of c w CLASS_E_CLASSNOTAVAILABLE w'] in
        \<open>auto simp: status_defs\<close>)
  have codes: "SUCCEEDED S_OK" "SUCCEEDED S_FALSE" "FAILED E_NOINTERFACE"
    "FAILED CLASS_E_NOAGGREGATION" "FAILED E_OUTOFMEMORY" "FAILED CLASS_E_CLASSNOTAVAILABLE"
    "distinct [E_NOINTERFACE, CLASS_E_NOAGGREGATION, E_OUTOFMEMORY, CLASS_E_CLASSNOTAVAILABLE]"
    by (simp_all add: SUCCEEDED_def FAILED_def status_defs)
  have ex1: "run_call (Call_QueryInterface NULL IID_IClassFactory 0) (fresh_world []) =
        Some (E_NOINTERFACE, (fresh_world [])\<lparr>slots := (\<lambda>s. Foreign 0)(0 := NULL)\<rparr>)"
    by (simp add: QueryInterface_def IsEqualGUID_def iid_defs fresh_world_def)
  have ex2: "run_call (Call_Factory_CreateInstance Static_SimpleClassFactory (Foreign 1) IID_IUnknown 0)
        (fresh_world []) = Some (CLASS_E_NOAGGREGATION, fresh_world [])"
    by (simp add: Factory_CreateInstance_def)
  have ex3: "run_call (Call_Factory_CreateInstance Static_SimpleClassFactory NULL IID_IUnknown 0)
        (fresh_world []) = Some (E_OUTOFMEMORY, (fresh_world [])\<lparr>alloc_log := [Malloc None]\<rparr>)"
    by (simp add: Factory_CreateInstance_def malloc_def Let_def fresh_world_def)
  have ex4: "run_call (Call_DllGetClassObject IID_IUnknown IID_IUnknown 0) (fresh_world []) =
        Some (CLASS_E_CLASSNOTAVAILABLE, fresh_world [])"
    by (simp add: DllGetClassObject_def IsEqualGUID_def iid_defs)
  from range sfalse cna codes ex1 ex2 ex3 ex4 show ?thesis by blast
qed

theorem status_codes_of_every_call_witness:
  "run_call Call_DllCanUnloadNow (fresh_world []) = Some (S_FALSE, fresh_world [])
   \<and> run_call (Call_DllGetClassObject IID_ICalculator IID_IClassFactory 2) (fresh_world [])
       = Some (CLASS_E_CLASSNOTAVAILABLE, fresh_world [])
   \<and> \<not> IsEqualGUID IID_ICalculator CLSID_SimpleCalculator"
  using status_codes_of_every_call
          [of Call_DllCanUnloadNow "fresh_world []" S_FALSE "fresh_world []"]
        status_codes_of_every_call
          [of "Call_DllGetClassObject IID_ICalculator IID_IClassFactory 2" "fresh_world []"
              CLASS_E_CLASSNOTAVAILABLE "fresh_world []"]
  by (simp add: DllCanUnloadNow_def DllGetClassObject_def IsEqualGUID_def iid_defs)

end
